theory Spec2Isabelle
  imports Main
begin

section \<open>Values exchanged with the control API (package ccv2)\<close>

text \<open>
  Go's \<^verbatim>\<open>map[string]interface{}\<close> carries schemaless JSON. A nil map is \<open>None\<close>, a
  map made with \<^verbatim>\<open>make\<close> is \<open>Some []\<close>.
\<close>

datatype json_value =
    JNull
  | JBool bool
  | JNumber int
  | JString string
  | JArray "json_value list"
  | JObject "(string \<times> json_value) list"

type_synonym params = "(string \<times> json_value) list"

text \<open>
  A Go \<^verbatim>\<open>error\<close> value. \<open>APIError\<close> stands for any error value handed back by the
  control-API client (its payload identifies the value); \<open>ErrorString\<close> is the value built
  by \<^verbatim>\<open>errors.New\<close> and \<^verbatim>\<open>fmt.Errorf\<close> inside the broker.
\<close>

datatype error = APIError string | ErrorString string

record ccv2_Filter =
  Filter_Type :: string
  Filter_Operator :: string
  Filter_Values :: "string list"

record ccv2_Service =
  Service_GUID :: string
  Service_Label :: string
  Service_Description :: string

record ccv2_ServicePlan =
  ServicePlan_GUID :: string
  ServicePlan_Name :: string
  ServicePlan_ServiceGUID :: string
  ServicePlan_Public :: bool
  ServicePlan_Description :: string

record ccv2_ServiceKey =
  ServiceKey_GUID :: string
  ServiceKey_Name :: string
  ServiceKey_ServiceInstanceGUID :: string
  ServiceKey_Credentials :: "params option"

record ccv2_LastOperation =
  LastOperation_State :: string
  LastOperation_Description :: string

record ccv2_ServiceInstance =
  ServiceInstance_GUID :: string
  ServiceInstance_DashboardURL :: string
  ServiceInstance_LastOperation :: ccv2_LastOperation

record ccv2_Space =
  Space_GUID :: string

text \<open>The zero values \<^verbatim>\<open>ccv2.ServiceKey{}\<close> and \<^verbatim>\<open>ccv2.ServiceInstance{}\<close>.\<close>

definition ServiceKey_zero :: ccv2_ServiceKey where
  "ServiceKey_zero =
     \<lparr>ServiceKey_GUID = '''', ServiceKey_Name = '''',
      ServiceKey_ServiceInstanceGUID = '''', ServiceKey_Credentials = None\<rparr>"

definition ServiceInstance_zero :: ccv2_ServiceInstance where
  "ServiceInstance_zero =
     \<lparr>ServiceInstance_GUID = '''', ServiceInstance_DashboardURL = '''',
      ServiceInstance_LastOperation =
        \<lparr>LastOperation_State = '''', LastOperation_Description = ''''\<rparr>\<rparr>"

text \<open>
  Modelled from the spec: the constant \<^verbatim>\<open>constant.LastOperationInProgress\<close> of package
  \<^verbatim>\<open>ccv2/constant\<close> is not among the sources; the spec names the state "in progress".
\<close>

definition LastOperationInProgress :: string where
  "LastOperationInProgress = ''in progress''"

section \<open>HTTP requests built by the client functions of service_key.go\<close>

datatype request_name = PostServiceKeyRequest | DeleteServiceKeyRequest

record serviceKeyRequestBody =
  Body_ServiceInstanceGUID :: string
  Body_Name :: string
  Body_Parameters :: params

text \<open>
  \<^verbatim>\<open>requestOptions\<close>: the body is kept as the structure that \<^verbatim>\<open>json.Marshal\<close> encodes
  (every \<open>json_value\<close> can be encoded, so that call does not fail here); \<open>Query\<close> is
  \<^verbatim>\<open>url.Values\<close>, a key with its list of values.
\<close>

record requestOptions =
  RequestName :: request_name
  URIParams :: "(string \<times> string) list"
  Query :: "(string \<times> string list) list"
  Body :: "serviceKeyRequestBody option"

section \<open>The control-API client as a stub\<close>

text \<open>
  Each client function returns \<^verbatim>\<open>(result, warnings, err)\<close>; the broker drops the warnings
  everywhere, so a result is a pair of the value and the optional error. Functions whose
  body is not among the sources (\<^verbatim>\<open>GetServices\<close>, \<^verbatim>\<open>GetSpaces\<close>,
  \<^verbatim>\<open>CreateServiceInstance\<close>, \<^verbatim>\<open>DeleteServiceInstance\<close>, \<^verbatim>\<open>GetServiceInstances\<close>,
  \<^verbatim>\<open>GetServiceInstance\<close>), or whose body rests on \<^verbatim>\<open>paginate\<close> and
  \<^verbatim>\<open>ConvertFilterParameters\<close>, which are not among the sources (\<^verbatim>\<open>GetServicePlans\<close>,
  \<^verbatim>\<open>GetServiceKeys\<close>), are parameters: fields of the stub. \<^verbatim>\<open>CreateServiceKey\<close> and
  \<^verbatim>\<open>DeleteServiceKey\<close> are translated below, over the stub's \<open>newHTTPRequest\<close> (which
  may fail) and \<open>connection_Make\<close> (the decoded response body and the error).
\<close>

record Client =
  GetServices :: "ccv2_Service list \<times> error option"
  GetServicePlans :: "ccv2_Filter list \<Rightarrow> ccv2_ServicePlan list \<times> error option"
  GetSpaces :: "ccv2_Space list \<times> error option"
  CreateServiceInstance ::
    "string \<Rightarrow> string \<Rightarrow> string \<Rightarrow> bool \<Rightarrow> params \<Rightarrow> ccv2_ServiceInstance \<times> error option"
  DeleteServiceInstance :: "string \<Rightarrow> bool \<Rightarrow> ccv2_ServiceInstance \<times> error option"
  GetServiceInstances :: "ccv2_Filter list \<Rightarrow> ccv2_ServiceInstance list \<times> error option"
  GetServiceInstance :: "string \<Rightarrow> ccv2_ServiceInstance \<times> error option"
  GetServiceKeys :: "ccv2_Filter list \<Rightarrow> ccv2_ServiceKey list \<times> error option"
  newHTTPRequest :: "requestOptions \<Rightarrow> error option"
  connection_Make :: "requestOptions \<Rightarrow> ccv2_ServiceKey \<times> error option"

definition CreateServiceKey_request ::
  "string \<Rightarrow> string \<Rightarrow> bool \<Rightarrow> params \<Rightarrow> requestOptions" where
  "CreateServiceKey_request serviceInstanceGUID keyName acceptsIncomplete parameters =
     (let requestBody =
            \<lparr>Body_ServiceInstanceGUID = serviceInstanceGUID,
             Body_Name = keyName,
             Body_Parameters = parameters\<rparr>
      in \<lparr>RequestName = PostServiceKeyRequest,
          URIParams = [],
          Query = [(''accepts_incomplete'', [''false''])],
          Body = Some requestBody\<rparr>)"

definition CreateServiceKey ::
  "Client \<Rightarrow> string \<Rightarrow> string \<Rightarrow> bool \<Rightarrow> params \<Rightarrow> ccv2_ServiceKey \<times> error option" where
  "CreateServiceKey client serviceInstanceGUID keyName acceptsIncomplete parameters =
     (let request =
            CreateServiceKey_request serviceInstanceGUID keyName acceptsIncomplete parameters
      in case newHTTPRequest client request of
           Some err \<Rightarrow> (ServiceKey_zero, Some err)
         | None \<Rightarrow>
             (case connection_Make client request of
                (serviceKey, Some err) \<Rightarrow> (ServiceKey_zero, Some err)
              | (serviceKey, None) \<Rightarrow> (serviceKey, None)))"

definition DeleteServiceKey_request :: "string \<Rightarrow> bool \<Rightarrow> requestOptions" where
  "DeleteServiceKey_request serviceKeyGUID acceptsIncomplete =
     \<lparr>RequestName = DeleteServiceKeyRequest,
      URIParams = [(''service_key_guid'', serviceKeyGUID)],
      Query = [(''accepts_incomplete'', [''false''])],
      Body = None\<rparr>"

text \<open>
  In \<^verbatim>\<open>DeleteServiceKey\<close> the response gets a \<^verbatim>\<open>Result\<close> to decode into only when
  \<^verbatim>\<open>acceptsIncomplete\<close> holds; otherwise \<^verbatim>\<open>serviceKey\<close> keeps its zero value.
\<close>

definition DeleteServiceKey ::
  "Client \<Rightarrow> string \<Rightarrow> bool \<Rightarrow> ccv2_ServiceKey \<times> error option" where
  "DeleteServiceKey client serviceKeyGUID acceptsIncomplete =
     (let request = DeleteServiceKey_request serviceKeyGUID acceptsIncomplete
      in case newHTTPRequest client request of
           Some err \<Rightarrow> (ServiceKey_zero, Some err)
         | None \<Rightarrow>
             (case connection_Make client request of
                (decoded, err) \<Rightarrow>
                  ((if acceptsIncomplete then decoded else ServiceKey_zero), err)))"

section \<open>Values of the broker protocol (package brokerapi)\<close>

record brokerapi_ServicePlan =
  Plan_ID :: string
  Plan_Name :: string
  Plan_Description :: string

record brokerapi_Service =
  ID :: string
  Name :: string
  Description :: string
  Bindable :: bool
  PlanUpdatable :: bool
  Plans :: "brokerapi_ServicePlan list"

record ProvisionDetails =
  ServiceID :: string
  PlanID :: string

record ProvisionedServiceSpec =
  IsAsync :: bool
  DashboardURL :: string
  OperationData :: string

record DeprovisionServiceSpec =
  Deprovision_IsAsync :: bool
  Deprovision_OperationData :: string

record Binding =
  Credentials :: "params option"

record brokerapi_LastOperation =
  State :: string
  Description_of_LastOperation :: string

record UpdateServiceSpec =
  Update_IsAsync :: bool
  Update_OperationData :: string

definition ProvisionedServiceSpec_zero :: ProvisionedServiceSpec where
  "ProvisionedServiceSpec_zero = \<lparr>IsAsync = False, DashboardURL = '''', OperationData = ''''\<rparr>"

definition DeprovisionServiceSpec_zero :: DeprovisionServiceSpec where
  "DeprovisionServiceSpec_zero =
     \<lparr>Deprovision_IsAsync = False, Deprovision_OperationData = ''''\<rparr>"

definition Binding_zero :: Binding where
  "Binding_zero = \<lparr>Credentials = None\<rparr>"

definition LastOperation_zero :: brokerapi_LastOperation where
  "LastOperation_zero = \<lparr>State = '''', Description_of_LastOperation = ''''\<rparr>"

definition UpdateServiceSpec_zero :: UpdateServiceSpec where
  "UpdateServiceSpec_zero = \<lparr>Update_IsAsync = False, Update_OperationData = ''''\<rparr>"

section \<open>The broker\<close>

text \<open>The calls a broker issues on its \<^verbatim>\<open>APIClient\<close>, with their arguments.\<close>

datatype api_call =
    GetServices_call
  | GetServicePlans_call "ccv2_Filter list"
  | GetSpaces_call
  | CreateServiceInstance_call string string string bool params
  | DeleteServiceInstance_call string bool
  | GetServiceInstances_call "ccv2_Filter list"
  | GetServiceInstance_call string
  | CreateServiceKey_call string string bool params
  | GetServiceKeys_call "ccv2_Filter list"
  | DeleteServiceKey_call string bool

text \<open>
  \<^verbatim>\<open>CFBrokerProxy\<close>: the two cache fields (\<open>Catalog\<close> is \<open>None\<close> for Go's nil slice),
  and \<open>APIClient_calls\<close>, the log of the calls issued so far on \<^verbatim>\<open>broker.APIClient\<close>
  (the counter of a stub client). The stub itself is passed to every operation. The
  fields \<^verbatim>\<open>InstanceCreators\<close>, \<^verbatim>\<open>InstanceBinders\<close> and \<^verbatim>\<open>Logger\<close> are never read.
\<close>

record CFBrokerProxy =
  Catalog :: "brokerapi_Service list option"
  SpaceGUID :: string
  APIClient_calls :: "api_call list"

definition issue :: "api_call \<Rightarrow> CFBrokerProxy \<Rightarrow> CFBrokerProxy" where
  "issue c broker = broker\<lparr>APIClient_calls := APIClient_calls broker @ [c]\<rparr>"

text \<open>The broker as \<^verbatim>\<open>main\<close> builds it: both caches unset, no call issued.\<close>

definition new_broker :: CFBrokerProxy where
  "new_broker = \<lparr>Catalog = None, SpaceGUID = '''', APIClient_calls = []\<rparr>"

text \<open>Go's \<^verbatim>\<open>len\<close> of a string counts bytes, as \<open>length\<close> does on a \<open>string\<close>.\<close>

definition sliceDescription :: "string \<Rightarrow> string" where
  "sliceDescription original =
     (if length original > 254 then take 254 original else original)"

text \<open>The loop of \<^verbatim>\<open>getServicePlans\<close>, appending to \<^verbatim>\<open>plans\<close>.\<close>

fun getServicePlans_loop ::
  "ccv2_ServicePlan list \<Rightarrow> brokerapi_ServicePlan list \<Rightarrow> brokerapi_ServicePlan list" where
  "getServicePlans_loop [] plans = plans"
| "getServicePlans_loop (p # servicePlans) plans =
     (let plan = \<lparr>Plan_ID = ServicePlan_GUID p,
                  Plan_Name = ServicePlan_Name p,
                  Plan_Description = sliceDescription (ServicePlan_Description p)\<rparr>
      in getServicePlans_loop servicePlans (plans @ [plan]))"

abbreviation service_guid_filter :: "string \<Rightarrow> ccv2_Filter list" where
  "service_guid_filter serviceGUID \<equiv>
     [\<lparr>Filter_Type = ''service_guid'', Filter_Operator = '':'',
       Filter_Values = [serviceGUID]\<rparr>]"

abbreviation name_filter :: "string \<Rightarrow> ccv2_Filter list" where
  "name_filter name \<equiv>
     [\<lparr>Filter_Type = ''name'', Filter_Operator = '':'', Filter_Values = [name]\<rparr>]"

text \<open>
  The filters are written out at each call in the source; the two abbreviations stand for
  those literals.
\<close>

text \<open>\<^verbatim>\<open>getServicePlans\<close> drops the error of the fetch and uses the list it got.\<close>

definition getServicePlans ::
  "Client \<Rightarrow> string \<Rightarrow> CFBrokerProxy \<Rightarrow> CFBrokerProxy \<times> brokerapi_ServicePlan list" where
  "getServicePlans client serviceGUID broker =
     (let broker1 = issue (GetServicePlans_call (service_guid_filter serviceGUID)) broker
      in case GetServicePlans client (service_guid_filter serviceGUID) of
           (servicePlans, _) \<Rightarrow> (broker1, getServicePlans_loop servicePlans []))"

text \<open>The loop of \<^verbatim>\<open>Services\<close>, appending to \<^verbatim>\<open>serviceList\<close>.\<close>

fun Services_loop ::
  "Client \<Rightarrow> ccv2_Service list \<Rightarrow> brokerapi_Service list \<Rightarrow> CFBrokerProxy
     \<Rightarrow> CFBrokerProxy \<times> brokerapi_Service list" where
  "Services_loop client [] serviceList broker = (broker, serviceList)"
| "Services_loop client (s # services) serviceList broker =
     (case getServicePlans client (Service_GUID s) broker of
        (broker1, planList) \<Rightarrow>
          (let service = \<lparr>ID = Service_GUID s,
                          Name = Service_Label s,
                          Description = sliceDescription (Service_Description s),
                          Bindable = True,
                          PlanUpdatable = False,
                          Plans = planList\<rparr>
           in Services_loop client services (serviceList @ [service]) broker1))"

definition Services ::
  "Client \<Rightarrow> CFBrokerProxy \<Rightarrow> CFBrokerProxy \<times> (brokerapi_Service list \<times> error option)" where
  "Services client broker =
     (case Catalog broker of
        Some catalog \<Rightarrow> (broker, (catalog, None))
      | None \<Rightarrow>
          (let broker1 = issue GetServices_call broker
           in case GetServices client of
                (services, Some err) \<Rightarrow> (broker1, ([], Some err))
              | (services, None) \<Rightarrow>
                  (case Services_loop client services [] broker1 of
                     (broker2, serviceList) \<Rightarrow>
                       (broker2\<lparr>Catalog := Some serviceList\<rparr>, (serviceList, None)))))"

definition Provision ::
  "Client \<Rightarrow> string \<Rightarrow> ProvisionDetails \<Rightarrow> bool \<Rightarrow> CFBrokerProxy
     \<Rightarrow> CFBrokerProxy \<times> (ProvisionedServiceSpec \<times> error option)" where
  "Provision client instanceID serviceDetails asyncAllowed broker =
     (case (if SpaceGUID broker = '''' then
              (let broker1 = issue GetSpaces_call broker
               in case GetSpaces client of
                    (availableSpace, Some err) \<Rightarrow> (broker1, Some err)
                  | (availableSpace, None) \<Rightarrow>
                      (if length availableSpace < 1
                       then (broker1, Some (ErrorString ''Available spaces not found''))
                       else (broker1\<lparr>SpaceGUID := Space_GUID (availableSpace ! 0)\<rparr>, None)))
            else (broker, None)) of
        (broker1, Some err) \<Rightarrow> (broker1, (ProvisionedServiceSpec_zero, Some err))
      | (broker1, None) \<Rightarrow>
          (let broker2 =
                 issue (CreateServiceInstance_call instanceID (PlanID serviceDetails)
                          (SpaceGUID broker1) asyncAllowed []) broker1
           in case CreateServiceInstance client instanceID (PlanID serviceDetails)
                     (SpaceGUID broker1) asyncAllowed [] of
                (serviceInstance, Some err) \<Rightarrow> (broker2, (ProvisionedServiceSpec_zero, Some err))
              | (serviceInstance, None) \<Rightarrow>
                  (broker2,
                   (\<lparr>IsAsync =
                        (LastOperation_State (ServiceInstance_LastOperation serviceInstance)
                           = LastOperationInProgress),
                      DashboardURL = ServiceInstance_DashboardURL serviceInstance,
                      OperationData = ServiceInstance_GUID serviceInstance\<rparr>, None))))"

definition findFirstServiceInstanceWithName ::
  "Client \<Rightarrow> string \<Rightarrow> CFBrokerProxy
     \<Rightarrow> CFBrokerProxy \<times> (ccv2_ServiceInstance \<times> error option)" where
  "findFirstServiceInstanceWithName client serviceInstanceName broker =
     (let broker1 = issue (GetServiceInstances_call (name_filter serviceInstanceName)) broker
      in case GetServiceInstances client (name_filter serviceInstanceName) of
           (serviceInstances, Some err) \<Rightarrow> (broker1, (ServiceInstance_zero, Some err))
         | (serviceInstances, None) \<Rightarrow>
             (if length serviceInstances < 1
              then (broker1,
                    (ServiceInstance_zero,
                     Some (ErrorString (''Service instance with name '' @ serviceInstanceName
                                          @ '' not found''))))
              else (broker1, (serviceInstances ! 0, None))))"

definition Deprovision ::
  "Client \<Rightarrow> string \<Rightarrow> 'd \<Rightarrow> bool \<Rightarrow> CFBrokerProxy
     \<Rightarrow> CFBrokerProxy \<times> (DeprovisionServiceSpec \<times> error option)" where
  "Deprovision client instanceID details asyncAllowed broker =
     (case findFirstServiceInstanceWithName client instanceID broker of
        (broker1, (firstInstance, Some err)) \<Rightarrow> (broker1, (DeprovisionServiceSpec_zero, Some err))
      | (broker1, (firstInstance, None)) \<Rightarrow>
          (let broker2 =
                 issue (DeleteServiceInstance_call (ServiceInstance_GUID firstInstance) True)
                   broker1
           in case DeleteServiceInstance client (ServiceInstance_GUID firstInstance) True of
                (instanceToDelete, Some err) \<Rightarrow>
                  (broker2, (DeprovisionServiceSpec_zero, Some err))
              | (instanceToDelete, None) \<Rightarrow>
                  (broker2,
                   (\<lparr>Deprovision_IsAsync =
                        (LastOperation_State (ServiceInstance_LastOperation instanceToDelete)
                           = LastOperationInProgress),
                      Deprovision_OperationData = ServiceInstance_GUID instanceToDelete\<rparr>,
                    None))))"

definition Bind ::
  "Client \<Rightarrow> string \<Rightarrow> string \<Rightarrow> 'd \<Rightarrow> CFBrokerProxy
     \<Rightarrow> CFBrokerProxy \<times> (Binding \<times> error option)" where
  "Bind client instanceID bindingID details broker =
     (case findFirstServiceInstanceWithName client instanceID broker of
        (broker1, (firstInstance, Some err)) \<Rightarrow> (broker1, (Binding_zero, Some err))
      | (broker1, (firstInstance, None)) \<Rightarrow>
          (let broker2 =
                 issue (CreateServiceKey_call (ServiceInstance_GUID firstInstance) bindingID
                          True []) broker1
           in case CreateServiceKey client (ServiceInstance_GUID firstInstance) bindingID
                     True [] of
                (serviceKey, Some err) \<Rightarrow> (broker2, (Binding_zero, Some err))
              | (serviceKey, None) \<Rightarrow>
                  (broker2, (\<lparr>Credentials = ServiceKey_Credentials serviceKey\<rparr>, None))))"

definition Unbind ::
  "Client \<Rightarrow> string \<Rightarrow> string \<Rightarrow> 'd \<Rightarrow> CFBrokerProxy \<Rightarrow> CFBrokerProxy \<times> error option" where
  "Unbind client instanceID bindingID details broker =
     (let broker1 = issue (GetServiceKeys_call (name_filter bindingID)) broker
      in case GetServiceKeys client (name_filter bindingID) of
           (serviceKeys, Some err) \<Rightarrow> (broker1, Some err)
         | (serviceKeys, None) \<Rightarrow>
             (if length serviceKeys < 1
              then (broker1,
                    Some (ErrorString (''Service key '' @ [CHR 0x27] @ bindingID @ [CHR 0x27]
                                         @ '' not found'')))
              else
                (let broker2 =
                       issue (DeleteServiceKey_call (ServiceKey_GUID (serviceKeys ! 0)) False)
                         broker1
                 in case DeleteServiceKey client (ServiceKey_GUID (serviceKeys ! 0)) False of
                      (_, Some err) \<Rightarrow> (broker2, Some err)
                    | (_, None) \<Rightarrow> (broker2, None))))"

definition LastOperation ::
  "Client \<Rightarrow> string \<Rightarrow> string \<Rightarrow> CFBrokerProxy
     \<Rightarrow> CFBrokerProxy \<times> (brokerapi_LastOperation \<times> error option)" where
  "LastOperation client instanceID operationData broker =
     (let broker1 = issue (GetServiceInstance_call operationData) broker
      in case GetServiceInstance client operationData of
           (serviceInstance, Some err) \<Rightarrow> (broker1, (LastOperation_zero, Some err))
         | (serviceInstance, None) \<Rightarrow>
             (broker1,
              (\<lparr>State = LastOperation_State (ServiceInstance_LastOperation serviceInstance),
                 Description_of_LastOperation =
                   LastOperation_Description (ServiceInstance_LastOperation serviceInstance)\<rparr>,
               None)))"

definition Update ::
  "Client \<Rightarrow> string \<Rightarrow> 'd \<Rightarrow> bool \<Rightarrow> CFBrokerProxy
     \<Rightarrow> CFBrokerProxy \<times> (UpdateServiceSpec \<times> error option)" where
  "Update client instanceID serviceDetails asyncAllowed broker =
     (broker, (UpdateServiceSpec_zero, None))"

section \<open>What the two loops build, and a harness for sequences of calls\<close>

text \<open>
  \<open>toServicePlan\<close> and \<open>toService\<close> are the bodies of the two loops as functions of one
  element. \<open>handle\<close> is the protocol server handing one call to the broker (each call may
  see a different stub behaviour), \<open>serve\<close> a sequence of such calls. \<open>stub\<close> is a
  concrete stub client for the concrete runs below.
\<close>

definition toServicePlan :: "ccv2_ServicePlan \<Rightarrow> brokerapi_ServicePlan" where
  "toServicePlan p =
     \<lparr>Plan_ID = ServicePlan_GUID p, Plan_Name = ServicePlan_Name p,
      Plan_Description = sliceDescription (ServicePlan_Description p)\<rparr>"

definition toService :: "Client \<Rightarrow> ccv2_Service \<Rightarrow> brokerapi_Service" where
  "toService client s =
     \<lparr>ID = Service_GUID s, Name = Service_Label s,
      Description = sliceDescription (Service_Description s),
      Bindable = True, PlanUpdatable = False,
      Plans = map toServicePlan
                (fst (GetServicePlans client (service_guid_filter (Service_GUID s))))\<rparr>"

datatype request =
    ListCatalog_req
  | Provision_req string ProvisionDetails bool
  | Deprovision_req string bool
  | Bind_req string string
  | Unbind_req string string
  | LastOperation_req string string
  | Update_req string bool

fun handle :: "Client \<times> request \<Rightarrow> CFBrokerProxy \<Rightarrow> CFBrokerProxy" where
  "handle (client, ListCatalog_req) broker = fst (Services client broker)"
| "handle (client, Provision_req instanceID serviceDetails asyncAllowed) broker =
     fst (Provision client instanceID serviceDetails asyncAllowed broker)"
| "handle (client, Deprovision_req instanceID asyncAllowed) broker =
     fst (Deprovision client instanceID () asyncAllowed broker)"
| "handle (client, Bind_req instanceID bindingID) broker =
     fst (Bind client instanceID bindingID () broker)"
| "handle (client, Unbind_req instanceID bindingID) broker =
     fst (Unbind client instanceID bindingID () broker)"
| "handle (client, LastOperation_req instanceID operationData) broker =
     fst (LastOperation client instanceID operationData broker)"
| "handle (client, Update_req instanceID asyncAllowed) broker =
     fst (Update client instanceID () asyncAllowed broker)"

definition serve :: "(Client \<times> request) list \<Rightarrow> CFBrokerProxy \<Rightarrow> CFBrokerProxy" where
  "serve reqs broker = fold handle reqs broker"

definition descriptions_bounded :: "brokerapi_Service list \<Rightarrow> bool" where
  "descriptions_bounded catalog =
     list_all (\<lambda>s. length (Description s) \<le> 254 \<and>
                    list_all (\<lambda>p. length (Plan_Description p) \<le> 254) (Plans s)) catalog"

text \<open>
  The characters of a description, in the spec's words; the code never counts them. A
  description is UTF-8 text, so its characters are counted here as
  Go's \<^verbatim>\<open>utf8.RuneCountInString\<close> counts them on valid UTF-8: the bytes that are not
  continuation bytes (\<^verbatim>\<open>10xxxxxx\<close>).
\<close>

definition utf8_continuation :: "char \<Rightarrow> bool" where
  "utf8_continuation c = (128 \<le> (of_char c :: nat) \<and> (of_char c :: nat) < 192)"

definition character_count :: "string \<Rightarrow> nat" where
  "character_count s = length (filter (\<lambda>c. \<not> utf8_continuation c) s)"

definition stub :: Client where
  "stub =
     \<lparr>GetServices =
        ([\<lparr>Service_GUID = ''s1'', Service_Label = ''db'',
           Service_Description = replicate 300 (CHR ''x'')\<rparr>], None),
      GetServicePlans =
        (\<lambda>filters.
           ([\<lparr>ServicePlan_GUID = ''p1'', ServicePlan_Name = ''small'',
              ServicePlan_ServiceGUID = ''s1'', ServicePlan_Public = True,
              ServicePlan_Description = replicate 255 (CHR ''y'')\<rparr>], None)),
      GetSpaces = ([\<lparr>Space_GUID = ''space-1''\<rparr>, \<lparr>Space_GUID = ''space-2''\<rparr>], None),
      CreateServiceInstance =
        (\<lambda>name plan space async ps.
           (\<lparr>ServiceInstance_GUID = ''i1'', ServiceInstance_DashboardURL = ''http://dash'',
             ServiceInstance_LastOperation =
               \<lparr>LastOperation_State = ''in progress'',
                LastOperation_Description = ''''\<rparr>\<rparr>, None)),
      DeleteServiceInstance =
        (\<lambda>guid async.
           (\<lparr>ServiceInstance_GUID = guid, ServiceInstance_DashboardURL = '''',
             ServiceInstance_LastOperation =
               \<lparr>LastOperation_State = ''in progress'',
                LastOperation_Description = ''''\<rparr>\<rparr>, None)),
      GetServiceInstances =
        (\<lambda>filters.
           ([\<lparr>ServiceInstance_GUID = ''i1'', ServiceInstance_DashboardURL = ''http://dash'',
              ServiceInstance_LastOperation =
                \<lparr>LastOperation_State = ''succeeded'',
                 LastOperation_Description = ''''\<rparr>\<rparr>], None)),
      GetServiceInstance =
        (\<lambda>guid.
           (\<lparr>ServiceInstance_GUID = guid, ServiceInstance_DashboardURL = ''http://dash'',
             ServiceInstance_LastOperation =
               \<lparr>LastOperation_State = ''succeeded'',
                LastOperation_Description = ''''\<rparr>\<rparr>, None)),
      GetServiceKeys =
        (\<lambda>filters.
           ([\<lparr>ServiceKey_GUID = ''k1'', ServiceKey_Name = ''b1'',
              ServiceKey_ServiceInstanceGUID = ''i1'',
              ServiceKey_Credentials = Some [(''password'', JString ''pw'')]\<rparr>,
             \<lparr>ServiceKey_GUID = ''k2'', ServiceKey_Name = ''b1'',
              ServiceKey_ServiceInstanceGUID = ''i2'',
              ServiceKey_Credentials = None\<rparr>], None)),
      newHTTPRequest = (\<lambda>request. None),
      connection_Make =
        (\<lambda>request.
           (\<lparr>ServiceKey_GUID = ''k1'', ServiceKey_Name = ''b1'',
             ServiceKey_ServiceInstanceGUID = ''i1'',
             ServiceKey_Credentials = Some [(''password'', JString ''pw'')]\<rparr>, None))\<rparr>"

section \<open>Properties\<close>

lemma issue_simps:
  "Catalog (issue c broker) = Catalog broker"
  "SpaceGUID (issue c broker) = SpaceGUID broker"
  "APIClient_calls (issue c broker) = APIClient_calls broker @ [c]"
  by (simp_all add: issue_def)

lemma getServicePlans_loop_map:
  "getServicePlans_loop servicePlans plans = plans @ map toServicePlan servicePlans"
  by (induction servicePlans arbitrary: plans) (simp_all add: toServicePlan_def)

lemma getServicePlans_eq:
  "getServicePlans client serviceGUID broker =
     (issue (GetServicePlans_call (service_guid_filter serviceGUID)) broker,
      map toServicePlan (fst (GetServicePlans client (service_guid_filter serviceGUID))))"
  by (simp add: getServicePlans_def getServicePlans_loop_map split: prod.splits)

lemma Services_loop_eq:
  "Services_loop client services serviceList broker =
     (broker\<lparr>APIClient_calls := APIClient_calls broker @
         map (\<lambda>s. GetServicePlans_call (service_guid_filter (Service_GUID s))) services\<rparr>,
      serviceList @ map (toService client) services)"
  by (induction services arbitrary: serviceList broker)
     (simp_all add: getServicePlans_eq toService_def issue_def)

lemma length_sliceDescription: "length (sliceDescription d) \<le> 254"
  by (simp add: sliceDescription_def)

lemma Services_fetch:
  "Catalog broker = None \<Longrightarrow> GetServices client = (services, None) \<Longrightarrow>
   Services client broker =
     (broker\<lparr>Catalog := Some (map (toService client) services),
        APIClient_calls := APIClient_calls broker @ GetServices_call #
         map (\<lambda>s. GetServicePlans_call (service_guid_filter (Service_GUID s))) services\<rparr>,
      (map (toService client) services, None))"
  by (simp add: Services_def Services_loop_eq issue_def)

lemma Services_fetch_error:
  "Catalog broker = None \<Longrightarrow> GetServices client = (services, Some err) \<Longrightarrow>
   Services client broker = (issue GetServices_call broker, ([], Some err))"
  by (simp add: Services_def)

lemma Services_cached:
  "Catalog broker = Some catalog \<Longrightarrow> Services client broker = (broker, (catalog, None))"
  by (simp add: Services_def)

lemma Catalog_Services:
  "Catalog (fst (Services client broker)) =
     (case Catalog broker of
        Some catalog \<Rightarrow> Some catalog
      | None \<Rightarrow> (case GetServices client of
                   (services, Some err) \<Rightarrow> None
                 | (services, None) \<Rightarrow> Some (map (toService client) services)))"
  by (simp add: Services_def Services_loop_eq issue_def split: option.splits prod.splits)

lemma SpaceGUID_Services: "SpaceGUID (fst (Services client broker)) = SpaceGUID broker"
  by (simp add: Services_def Services_loop_eq issue_def split: option.splits prod.splits)

lemma Catalog_Provision:
  "Catalog (fst (Provision client instanceID serviceDetails asyncAllowed broker)) = Catalog broker"
  by (simp add: Provision_def issue_def Let_def split: option.splits prod.splits)

lemma findFirst_caches:
  "Catalog (fst (findFirstServiceInstanceWithName client n broker)) = Catalog broker"
  "SpaceGUID (fst (findFirstServiceInstanceWithName client n broker)) = SpaceGUID broker"
  by (simp_all add: findFirstServiceInstanceWithName_def issue_def Let_def
        split: option.splits prod.splits)

lemma Deprovision_caches:
  "Catalog (fst (Deprovision client instanceID details asyncAllowed broker)) = Catalog broker"
  "SpaceGUID (fst (Deprovision client instanceID details asyncAllowed broker)) = SpaceGUID broker"
  using findFirst_caches [of client instanceID broker]
  by (auto simp add: Deprovision_def issue_def Let_def split: option.splits prod.splits)

lemma Bind_caches:
  "Catalog (fst (Bind client instanceID bindingID details broker)) = Catalog broker"
  "SpaceGUID (fst (Bind client instanceID bindingID details broker)) = SpaceGUID broker"
  using findFirst_caches [of client instanceID broker]
  by (auto simp add: Bind_def issue_def Let_def split: option.splits prod.splits)

lemma Unbind_caches:
  "Catalog (fst (Unbind client instanceID bindingID details broker)) = Catalog broker"
  "SpaceGUID (fst (Unbind client instanceID bindingID details broker)) = SpaceGUID broker"
  by (simp_all add: Unbind_def issue_def Let_def split: option.splits prod.splits)

lemma LastOperation_caches:
  "Catalog (fst (LastOperation client instanceID operationData broker)) = Catalog broker"
  "SpaceGUID (fst (LastOperation client instanceID operationData broker)) = SpaceGUID broker"
  by (simp_all add: LastOperation_def issue_def Let_def split: option.splits prod.splits)

lemma Update_caches:
  "Catalog (fst (Update client instanceID details asyncAllowed broker)) = Catalog broker"
  "SpaceGUID (fst (Update client instanceID details asyncAllowed broker)) = SpaceGUID broker"
  by (simp_all add: Update_def)

lemma handle_keeps_Catalog:
  "Catalog broker = Some catalog \<Longrightarrow> Catalog (handle cr broker) = Some catalog"
proof (cases cr)
  case (Pair client r)
  assume "Catalog broker = Some catalog"
  then show ?thesis
    unfolding Pair
    by (cases r)
       (simp_all add: Catalog_Services Catalog_Provision Deprovision_caches Bind_caches
          Unbind_caches LastOperation_caches Update_caches)
qed

lemma serve_keeps_Catalog:
  "Catalog broker = Some catalog \<Longrightarrow> Catalog (serve reqs broker) = Some catalog"
  unfolding serve_def
  by (induction reqs arbitrary: broker) (simp_all add: handle_keeps_Catalog)

lemma Services_success_cached:
  "Services client broker = (broker1, (catalog, None)) \<Longrightarrow> Catalog broker1 = Some catalog"
  by (auto simp add: Services_def Services_loop_eq issue_def split: option.splits prod.splits)

lemma descriptions_bounded_toService:
  "descriptions_bounded (map (toService client) services)"
  by (simp add: descriptions_bounded_def list_all_iff toService_def toServicePlan_def
        length_sliceDescription)

lemma character_count_le_length: "character_count s \<le> length s"
  by (simp add: character_count_def)

lemma length_e_acute: "length (concat (replicate 200 [CHR 0xC3, CHR 0xA9])) = 400"
  by (simp add: length_concat sum_list_replicate)

lemma character_count_e_acute:
  "character_count (concat (replicate 200 [CHR 0xC3, CHR 0xA9])) = 200"
  by (simp add: character_count_def filter_concat utf8_continuation_def length_concat
        sum_list_replicate)

text \<open>
  C1, as stated, fails: the cut is at 254 bytes, not at 254 characters. A description of
  200 times the character U+00E9 (two bytes each in UTF-8, \<^verbatim>\<open>0xC3 0xA9\<close>) has 200
  characters, at most 254, and is not returned unchanged: it has 400 bytes and is cut.
\<close>

theorem sliceDescription_cuts_bytes_not_characters:
  "\<not> (character_count (concat (replicate 200 [CHR 0xC3, CHR 0xA9])) \<le> 254 \<longrightarrow>
        sliceDescription (concat (replicate 200 [CHR 0xC3, CHR 0xA9]))
          = concat (replicate 200 [CHR 0xC3, CHR 0xA9]))"
proof -
  let ?d = "concat (replicate 200 [CHR 0xC3, CHR 0xA9])"
  have "length (sliceDescription ?d) \<le> 254"
    by (rule length_sliceDescription)
  then have "sliceDescription ?d \<noteq> ?d"
    using length_e_acute by auto
  then show ?thesis
    by (simp add: character_count_e_acute)
qed

text \<open>
  C1, amended. When the catalog is not cached, every service entry and every plan entry
  that \<^verbatim>\<open>Services\<close> (ListCatalog) assembles has a description of at most 254 bytes, hence
  of at most 254 characters, whatever the descriptions the control API returned: each is
  \<open>sliceDescription\<close> of the control API's description, which is the description itself
  when it has at most 254 bytes and its first 254 bytes otherwise (Go's \<^verbatim>\<open>len\<close> and
  slicing of a string count bytes).
\<close>

theorem Services_descriptions_at_most_254:
  assumes "Catalog broker = None"
    and "Services client broker = (broker', (catalog, err))"
  shows "(\<forall>s \<in> set catalog. length (Description s) \<le> 254 \<and>
            (\<forall>p \<in> set (Plans s). length (Plan_Description p) \<le> 254))
         \<and> (\<forall>s \<in> set catalog. character_count (Description s) \<le> 254 \<and>
            (\<forall>p \<in> set (Plans s). character_count (Plan_Description p) \<le> 254))
         \<and> (err = None \<longrightarrow>
              map Description catalog =
                map (\<lambda>s. sliceDescription (Service_Description s)) (fst (GetServices client))
              \<and> map (\<lambda>s. map Plan_Description (Plans s)) catalog =
                map (\<lambda>s. map (\<lambda>p. sliceDescription (ServicePlan_Description p))
                            (fst (GetServicePlans client (service_guid_filter (Service_GUID s)))))
                    (fst (GetServices client)))
         \<and> (length d \<le> 254 \<longrightarrow> sliceDescription d = d)
         \<and> (254 < length d \<longrightarrow> sliceDescription d = take 254 d \<and> length (sliceDescription d) = 254)"
proof -
  obtain services e where g: "GetServices client = (services, e)"
    by (cases "GetServices client")
  have slice: "(length d \<le> 254 \<longrightarrow> sliceDescription d = d)
      \<and> (254 < length d \<longrightarrow> sliceDescription d = take 254 d \<and> length (sliceDescription d) = 254)"
    by (simp add: sliceDescription_def)
  show ?thesis
  proof (cases e)
    case None
    with assms g have c: "catalog = map (toService client) services" and "err = None"
      by (simp_all add: Services_fetch)
    have "descriptions_bounded catalog"
      unfolding c by (rule descriptions_bounded_toService)
    then have b: "\<forall>s \<in> set catalog. length (Description s) \<le> 254 \<and>
            (\<forall>p \<in> set (Plans s). length (Plan_Description p) \<le> 254)"
      by (simp add: descriptions_bounded_def list_all_iff)
    have m: "map Description catalog =
                map (\<lambda>s. sliceDescription (Service_Description s)) (fst (GetServices client))"
      by (simp add: c g toService_def)
    have n: "map (\<lambda>s. map Plan_Description (Plans s)) catalog =
                map (\<lambda>s. map (\<lambda>p. sliceDescription (ServicePlan_Description p))
                            (fst (GetServicePlans client (service_guid_filter (Service_GUID s)))))
                    (fst (GetServices client))"
      by (simp add: c g toService_def toServicePlan_def comp_def)
    have b': "\<forall>s \<in> set catalog. character_count (Description s) \<le> 254 \<and>
            (\<forall>p \<in> set (Plans s). character_count (Plan_Description p) \<le> 254)"
    proof (intro ballI conjI)
      fix s
      assume s: "s \<in> set catalog"
      with b have "length (Description s) \<le> 254"
        by simp
      with character_count_le_length [of "Description s"]
      show "character_count (Description s) \<le> 254"
        by (rule le_trans)
    next
      fix s p
      assume "s \<in> set catalog" and "p \<in> set (Plans s)"
      with b have "length (Plan_Description p) \<le> 254"
        by simp
      with character_count_le_length [of "Plan_Description p"]
      show "character_count (Plan_Description p) \<le> 254"
        by (rule le_trans)
    qed
    from b b' m n slice show ?thesis by blast
  next
    case (Some x)
    with assms g have "catalog = []" and "err \<noteq> None"
      by (auto simp add: Services_fetch_error)
    with slice show ?thesis by auto
  qed
qed

text \<open>
  C2. After one successful \<^verbatim>\<open>Services\<close> call, every later \<^verbatim>\<open>Services\<close> call, after any
  sequence of broker calls against any stub behaviour, returns the same catalog with no
  error and leaves the broker as it was: in particular it issues no call on the control
  API, neither for services nor for plans.
\<close>

theorem Services_cached_no_refetch:
  assumes "Services client broker = (broker1, (catalog, None))"
  shows "Services client' (serve reqs broker1) = (serve reqs broker1, (catalog, None))
         \<and> APIClient_calls (fst (Services client' (serve reqs broker1)))
             = APIClient_calls (serve reqs broker1)"
proof -
  from assms have "Catalog broker1 = Some catalog"
    by (rule Services_success_cached)
  then have "Catalog (serve reqs broker1) = Some catalog"
    by (rule serve_keeps_Catalog)
  then show ?thesis
    by (simp add: Services_cached)
qed

theorem Services_descriptions_at_most_254_witness:
  "Catalog new_broker = None
   \<and> snd (Services stub new_broker) =
       ([\<lparr>ID = ''s1'', Name = ''db'', Description = replicate 254 (CHR ''x''),
          Bindable = True, PlanUpdatable = False,
          Plans = [\<lparr>Plan_ID = ''p1'', Plan_Name = ''small'',
                    Plan_Description = replicate 254 (CHR ''y'')\<rparr>]\<rparr>], None)
   \<and> list_all (\<lambda>s. length (Description s) \<le> 254 \<and>
                      list_all (\<lambda>p. length (Plan_Description p) \<le> 254) (Plans s))
         (fst (snd (Services stub new_broker)))"
proof -
  have c: "Catalog new_broker = None"
    by (simp add: new_broker_def)
  have g: "GetServices stub =
             ([\<lparr>Service_GUID = ''s1'', Service_Label = ''db'',
                Service_Description = replicate 300 (CHR ''x'')\<rparr>], None)"
    by (simp add: stub_def)
  have r: "snd (Services stub new_broker) =
       ([\<lparr>ID = ''s1'', Name = ''db'', Description = replicate 254 (CHR ''x''),
          Bindable = True, PlanUpdatable = False,
          Plans = [\<lparr>Plan_ID = ''p1'', Plan_Name = ''small'',
                    Plan_Description = replicate 254 (CHR ''y'')\<rparr>]\<rparr>], None)"
    by (simp only: Services_fetch [OF c g] snd_conv)
       (simp add: toService_def toServicePlan_def sliceDescription_def stub_def)
  obtain b' cat e where s: "Services stub new_broker = (b', (cat, e))"
    by (metis prod.exhaust)
  from Services_descriptions_at_most_254 [OF c s] s c r show ?thesis
    by (simp add: list_all_iff)
qed

theorem Services_cached_no_refetch_witness:
  "snd (Services stub new_broker) = (map (toService stub) (fst (GetServices stub)), None)
   \<and> Services stub (serve [(stub, Update_req ''i'' True), (stub, ListCatalog_req)]
                     (fst (Services stub new_broker)))
       = (serve [(stub, Update_req ''i'' True), (stub, ListCatalog_req)]
            (fst (Services stub new_broker)),
          (map (toService stub) (fst (GetServices stub)), None))"
proof -
  have c: "Catalog new_broker = None"
    by (simp add: new_broker_def)
  have g: "GetServices stub = (fst (GetServices stub), None)"
    by (simp add: stub_def)
  have r: "snd (Services stub new_broker) =
             (map (toService stub) (fst (GetServices stub)), None)"
    by (simp add: Services_fetch [OF c g])
  then have s: "Services stub new_broker =
             (fst (Services stub new_broker),
              (map (toService stub) (fst (GetServices stub)), None))"
    by (metis prod.collapse)
  from Services_cached_no_refetch [OF s, of stub "[(stub, Update_req ''i'' True), (stub, ListCatalog_req)]"] r
  show ?thesis by blast
qed

text \<open>
  C3. Every failure of a control-API fetch in \<^verbatim>\<open>Services\<close> should reach the caller as the
  error of the operation. The failure of the service-list fetch does
  (\<open>Services_fetch_error\<close>); the failure of a plan fetch does not: with a stub whose
  \<^verbatim>\<open>GetServicePlans\<close> fails, \<^verbatim>\<open>Services\<close> returns a catalog whose service has no plans,
  returns no error and caches that catalog.
\<close>

theorem Services_swallows_plan_fetch_error:
  "Services (stub\<lparr>GetServicePlans := (\<lambda>filters. ([], Some (APIError ''plans unavailable'')))\<rparr>)
     new_broker =
     (\<lparr>Catalog =
         Some [\<lparr>ID = ''s1'', Name = ''db'', Description = replicate 254 (CHR ''x''),
                Bindable = True, PlanUpdatable = False, Plans = []\<rparr>],
       SpaceGUID = '''',
       APIClient_calls =
         [GetServices_call,
          GetServicePlans_call
            [\<lparr>Filter_Type = ''service_guid'', Filter_Operator = '':'',
              Filter_Values = [''s1'']\<rparr>]]\<rparr>,
      ([\<lparr>ID = ''s1'', Name = ''db'', Description = replicate 254 (CHR ''x''),
         Bindable = True, PlanUpdatable = False, Plans = []\<rparr>], None))"
  by (simp add: Services_def issue_def getServicePlans_def new_broker_def stub_def
        sliceDescription_def)

text \<open>
  C4. When \<^verbatim>\<open>Provision\<close> succeeds, its last call created a service instance without error,
  and of that instance: \<^verbatim>\<open>IsAsync\<close> holds exactly when the state of its last operation is
  "in progress", \<^verbatim>\<open>OperationData\<close> is its GUID and \<^verbatim>\<open>DashboardURL\<close> its dashboard URL.
\<close>

theorem Provision_isAsync_iff_in_progress:
  assumes "Provision client instanceID serviceDetails asyncAllowed broker
             = (broker', (spec, None))"
  shows "\<exists>serviceInstance.
           CreateServiceInstance client instanceID (PlanID serviceDetails) (SpaceGUID broker')
             asyncAllowed [] = (serviceInstance, None)
           \<and> last (APIClient_calls broker') =
               CreateServiceInstance_call instanceID (PlanID serviceDetails) (SpaceGUID broker')
                 asyncAllowed []
           \<and> IsAsync spec =
               (LastOperation_State (ServiceInstance_LastOperation serviceInstance)
                  = ''in progress'')
           \<and> OperationData spec = ServiceInstance_GUID serviceInstance
           \<and> DashboardURL spec = ServiceInstance_DashboardURL serviceInstance"
  using assms
  by (auto simp add: Provision_def issue_def Let_def LastOperationInProgress_def
        split: if_splits option.splits prod.splits)

text \<open>
  C5. With no space identifier cached: when the control API returns no space (and no
  error), \<^verbatim>\<open>Provision\<close> fails with the error "Available spaces not found" after the one
  call \<^verbatim>\<open>GetSpaces\<close>, so without a create call, and the space identifier stays unset;
  when it returns at least one space, the identifier of the first one is cached; and the
  space identifier is set afterwards only in that case.
\<close>

theorem Provision_without_spaces_fails:
  assumes "SpaceGUID broker = ''''"
    and "Provision client instanceID serviceDetails asyncAllowed broker
           = (broker', (spec, err))"
  shows "(GetSpaces client = ([], None) \<longrightarrow>
            err = Some (ErrorString ''Available spaces not found'')
            \<and> spec = ProvisionedServiceSpec_zero
            \<and> broker' = issue GetSpaces_call broker
            \<and> APIClient_calls broker' = APIClient_calls broker @ [GetSpaces_call]
            \<and> SpaceGUID broker' = '''')
         \<and> (\<forall>sp sps. GetSpaces client = (sp # sps, None) \<longrightarrow>
               SpaceGUID broker' = Space_GUID sp)
         \<and> (SpaceGUID broker' \<noteq> '''' \<longrightarrow>
               (\<exists>sp sps. GetSpaces client = (sp # sps, None)
                          \<and> SpaceGUID broker' = Space_GUID sp))"
  using assms
  by (cases "GetSpaces client"; cases "fst (GetSpaces client)")
     (auto simp add: Provision_def issue_def Let_def
        split: if_splits option.splits prod.splits)

text \<open>
  C6. When the lookup of instances named \<^verbatim>\<open>instanceID\<close> returns no instance (and no error),
  \<^verbatim>\<open>Deprovision\<close> and \<^verbatim>\<open>Bind\<close> each fail with the error "Service instance with name
  ... not found", and the lookup is the only call each has issued: no delete, no key
  creation.
\<close>

theorem Deprovision_Bind_instance_not_found:
  assumes "GetServiceInstances client (name_filter instanceID) = ([], None)"
  shows "Deprovision client instanceID details asyncAllowed broker =
           (issue (GetServiceInstances_call (name_filter instanceID)) broker,
            (DeprovisionServiceSpec_zero,
             Some (ErrorString (''Service instance with name '' @ instanceID @ '' not found''))))
         \<and> Bind client instanceID bindingID details' broker =
           (issue (GetServiceInstances_call (name_filter instanceID)) broker,
            (Binding_zero,
             Some (ErrorString (''Service instance with name '' @ instanceID @ '' not found''))))
         \<and> APIClient_calls (fst (Deprovision client instanceID details asyncAllowed broker)) =
             APIClient_calls broker @ [GetServiceInstances_call (name_filter instanceID)]
         \<and> APIClient_calls (fst (Bind client instanceID bindingID details' broker)) =
             APIClient_calls broker @ [GetServiceInstances_call (name_filter instanceID)]"
  using assms
  by (simp add: Deprovision_def Bind_def findFirstServiceInstanceWithName_def issue_def)


text \<open>
  C9. For every input, \<^verbatim>\<open>Update\<close> returns the empty \<^verbatim>\<open>UpdateServiceSpec\<close> and no error,
  and leaves the broker as it was: it issues no call on the control API.
\<close>

theorem Update_is_a_noop:
  "Update client instanceID serviceDetails asyncAllowed broker
     = (broker, (UpdateServiceSpec_zero, None))
   \<and> UpdateServiceSpec_zero = \<lparr>Update_IsAsync = False, Update_OperationData = ''''\<rparr>
   \<and> APIClient_calls (fst (Update client instanceID serviceDetails asyncAllowed broker))
       = APIClient_calls broker"
  by (simp add: Update_def UpdateServiceSpec_zero_def)

lemma CreateServiceKey_ignores_acceptsIncomplete:
  "CreateServiceKey client serviceInstanceGUID keyName acceptsIncomplete parameters =
     CreateServiceKey client serviceInstanceGUID keyName acceptsIncomplete' parameters"
  by (simp add: CreateServiceKey_def CreateServiceKey_request_def)

lemma Bind_found:
  "GetServiceInstances client (name_filter instanceID) = (i # is, None) \<Longrightarrow>
   Bind client instanceID bindingID details broker =
     (issue (CreateServiceKey_call (ServiceInstance_GUID i) bindingID True [])
        (issue (GetServiceInstances_call (name_filter instanceID)) broker),
      (case CreateServiceKey client (ServiceInstance_GUID i) bindingID True [] of
         (serviceKey, Some err) \<Rightarrow> (Binding_zero, Some err)
       | (serviceKey, None) \<Rightarrow> (\<lparr>Credentials = ServiceKey_Credentials serviceKey\<rparr>, None)))"
  by (simp add: Bind_def findFirstServiceInstanceWithName_def Let_def
        split: option.splits prod.splits)

text \<open>
  C8. \<^verbatim>\<open>Bind\<close> should create the key accepting incomplete creation. On a stub with one
  matching instance it calls \<^verbatim>\<open>CreateServiceKey\<close> for that instance with the name
  \<^verbatim>\<open>bindingID\<close>, \<^verbatim>\<open>acceptsIncomplete\<close> true and empty parameters, and returns the key's
  credentials; but the request that \<^verbatim>\<open>CreateServiceKey\<close> builds carries
  \<^verbatim>\<open>accepts_incomplete=false\<close>, and the call with \<^verbatim>\<open>acceptsIncomplete\<close> true is the call
  with \<^verbatim>\<open>acceptsIncomplete\<close> false.
\<close>

theorem Bind_create_request_refuses_incomplete:
  "Bind stub ''inst'' ''b1'' () new_broker =
     (\<lparr>Catalog = None, SpaceGUID = '''',
       APIClient_calls =
         [GetServiceInstances_call
            [\<lparr>Filter_Type = ''name'', Filter_Operator = '':'', Filter_Values = [''inst'']\<rparr>],
          CreateServiceKey_call ''i1'' ''b1'' True []]\<rparr>,
      (\<lparr>Credentials = Some [(''password'', JString ''pw'')]\<rparr>, None))
   \<and> CreateServiceKey_request ''i1'' ''b1'' True [] =
       \<lparr>RequestName = PostServiceKeyRequest, URIParams = [],
        Query = [(''accepts_incomplete'', [''false''])],
        Body = Some \<lparr>Body_ServiceInstanceGUID = ''i1'', Body_Name = ''b1'',
                      Body_Parameters = []\<rparr>\<rparr>
   \<and> CreateServiceKey stub ''i1'' ''b1'' True [] = CreateServiceKey stub ''i1'' ''b1'' False []"
  by (simp add: Bind_def findFirstServiceInstanceWithName_def CreateServiceKey_def
        CreateServiceKey_request_def issue_def new_broker_def stub_def)

lemma Services_error:
  "snd (snd (Services client broker)) =
     (case Catalog broker of Some catalog \<Rightarrow> None | None \<Rightarrow> snd (GetServices client))"
  by (simp add: Services_def Services_loop_eq Let_def split: option.splits prod.splits)

lemma Services_refetches:
  assumes "Catalog broker = None"
  shows "\<exists>rest. APIClient_calls (fst (Services client broker)) =
           APIClient_calls broker @ GetServices_call # rest"
proof -
  obtain services e where g: "GetServices client = (services, e)"
    by (cases "GetServices client")
  show ?thesis
  proof (cases e)
    case None
    with assms g show ?thesis by (simp add: Services_fetch)
  next
    case (Some err)
    with assms g show ?thesis by (simp add: Services_fetch_error issue_def)
  qed
qed

lemma Services_result:
  "fst (snd (Services client broker)) =
     (case Catalog broker of
        Some catalog \<Rightarrow> catalog
      | None \<Rightarrow> (case GetServices client of
                   (services, Some err) \<Rightarrow> []
                 | (services, None) \<Rightarrow> map (toService client) services))"
  by (simp add: Services_def Services_loop_eq Let_def split: option.splits prod.splits)

text \<open>
  C10, as stated, fails: with a space available and a failing create call,
  \<^verbatim>\<open>Provision\<close> returns an error and has changed the cached space identifier.
\<close>

theorem Provision_error_after_space_cached:
  "\<not> (snd (snd (Provision
                  (stub\<lparr>CreateServiceInstance :=
                           (\<lambda>name plan space async ps.
                              (ServiceInstance_zero, Some (APIError ''create failed'')))\<rparr>)
                  ''inst'' \<lparr>ServiceID = ''s1'', PlanID = ''p1''\<rparr> True new_broker)) \<noteq> None
       \<longrightarrow> SpaceGUID (fst (Provision
                  (stub\<lparr>CreateServiceInstance :=
                           (\<lambda>name plan space async ps.
                              (ServiceInstance_zero, Some (APIError ''create failed'')))\<rparr>)
                  ''inst'' \<lparr>ServiceID = ''s1'', PlanID = ''p1''\<rparr> True new_broker))
             = SpaceGUID new_broker)"
  by (simp add: Provision_def issue_def new_broker_def stub_def)

text \<open>
  C10, amended. When \<^verbatim>\<open>Services\<close> returns an error the catalog cache was unset and stays
  unset, and a later \<^verbatim>\<open>Services\<close> call fetches the services again; the catalog cache
  changes only when \<^verbatim>\<open>Services\<close> succeeds, to the catalog returned; \<^verbatim>\<open>Services\<close> never
  changes the space identifier and \<^verbatim>\<open>Provision\<close> never changes the catalog cache. When
  the space identifier is unset and the space lookup fails or finds no space,
  \<^verbatim>\<open>Provision\<close> returns an error and the identifier stays unset; the identifier changes
  only when it was unset and the lookup returned at least one space, and then it is the
  first space's, whether or not the create call that follows succeeds.
\<close>

theorem caches_assigned_when_lookup_succeeds:
  "(snd (snd (Services client broker)) \<noteq> None \<longrightarrow>
      Catalog broker = None \<and> Catalog (fst (Services client broker)) = None
      \<and> (\<exists>rest. APIClient_calls (fst (Services client' (fst (Services client broker)))) =
            APIClient_calls (fst (Services client broker)) @ GetServices_call # rest))
   \<and> (Catalog (fst (Services client broker)) \<noteq> Catalog broker \<longrightarrow>
        snd (snd (Services client broker)) = None
        \<and> Catalog (fst (Services client broker)) = Some (fst (snd (Services client broker))))
   \<and> SpaceGUID (fst (Services client broker)) = SpaceGUID broker
   \<and> Catalog (fst (Provision client instanceID serviceDetails asyncAllowed broker))
       = Catalog broker
   \<and> (SpaceGUID broker = '''' \<and> (snd (GetSpaces client) \<noteq> None \<or> fst (GetSpaces client) = [])
        \<longrightarrow> SpaceGUID (fst (Provision client instanceID serviceDetails asyncAllowed broker)) = ''''
            \<and> snd (snd (Provision client instanceID serviceDetails asyncAllowed broker)) \<noteq> None)
   \<and> (SpaceGUID (fst (Provision client instanceID serviceDetails asyncAllowed broker))
         \<noteq> SpaceGUID broker \<longrightarrow>
        SpaceGUID broker = ''''
        \<and> (\<exists>sp sps. GetSpaces client = (sp # sps, None)
              \<and> SpaceGUID (fst (Provision client instanceID serviceDetails asyncAllowed broker))
                  = Space_GUID sp))
   \<and> (\<forall>sp sps. SpaceGUID broker = '''' \<and> GetSpaces client = (sp # sps, None) \<longrightarrow>
        SpaceGUID (fst (Provision client instanceID serviceDetails asyncAllowed broker))
          = Space_GUID sp)"
proof -
  have s1: "snd (snd (Services client broker)) \<noteq> None \<longrightarrow>
      Catalog broker = None \<and> Catalog (fst (Services client broker)) = None
      \<and> (\<exists>rest. APIClient_calls (fst (Services client' (fst (Services client broker)))) =
            APIClient_calls (fst (Services client broker)) @ GetServices_call # rest)"
  proof (intro impI)
    assume e: "snd (snd (Services client broker)) \<noteq> None"
    then have c: "Catalog broker = None"
      by (auto simp add: Services_error split: option.splits)
    with e have c1: "Catalog (fst (Services client broker)) = None"
      by (auto simp add: Services_error Catalog_Services split: option.splits prod.splits)
    from Services_refetches [OF c1] c c1
    show "Catalog broker = None \<and> Catalog (fst (Services client broker)) = None
      \<and> (\<exists>rest. APIClient_calls (fst (Services client' (fst (Services client broker)))) =
            APIClient_calls (fst (Services client broker)) @ GetServices_call # rest)"
      by blast
  qed
  have s2: "Catalog (fst (Services client broker)) \<noteq> Catalog broker \<longrightarrow>
        snd (snd (Services client broker)) = None
        \<and> Catalog (fst (Services client broker)) = Some (fst (snd (Services client broker)))"
    by (auto simp add: Catalog_Services Services_error Services_result
          split: option.splits prod.splits)
  have p1: "SpaceGUID broker = '''' \<and> (snd (GetSpaces client) \<noteq> None \<or> fst (GetSpaces client) = [])
        \<longrightarrow> SpaceGUID (fst (Provision client instanceID serviceDetails asyncAllowed broker)) = ''''
            \<and> snd (snd (Provision client instanceID serviceDetails asyncAllowed broker)) \<noteq> None"
    by (auto simp add: Provision_def issue_def Let_def
          split: if_splits option.splits prod.splits)
  have p2: "SpaceGUID (fst (Provision client instanceID serviceDetails asyncAllowed broker))
         \<noteq> SpaceGUID broker \<longrightarrow>
        SpaceGUID broker = ''''
        \<and> (\<exists>sp sps. GetSpaces client = (sp # sps, None)
              \<and> SpaceGUID (fst (Provision client instanceID serviceDetails asyncAllowed broker))
                  = Space_GUID sp)"
    by (cases "GetSpaces client"; cases "fst (GetSpaces client)")
       (auto simp add: Provision_def issue_def Let_def
          split: if_splits option.splits prod.splits)
  have p3: "\<forall>sp sps. SpaceGUID broker = '''' \<and> GetSpaces client = (sp # sps, None) \<longrightarrow>
        SpaceGUID (fst (Provision client instanceID serviceDetails asyncAllowed broker))
          = Space_GUID sp"
    by (auto simp add: Provision_def issue_def Let_def
          split: if_splits option.splits prod.splits)
  show ?thesis
    by (intro conjI s1 s2 SpaceGUID_Services Catalog_Provision p1 p2 p3)
qed

theorem Provision_isAsync_iff_in_progress_witness:
  "snd (snd (Provision stub ''inst'' \<lparr>ServiceID = ''s1'', PlanID = ''p1''\<rparr> True new_broker))
     = None
   \<and> fst (Provision stub ''inst'' \<lparr>ServiceID = ''s1'', PlanID = ''p1''\<rparr> True new_broker) =
       \<lparr>Catalog = None, SpaceGUID = ''space-1'',
        APIClient_calls =
          [GetSpaces_call, CreateServiceInstance_call ''inst'' ''p1'' ''space-1'' True []]\<rparr>
   \<and> fst (snd (Provision stub ''inst'' \<lparr>ServiceID = ''s1'', PlanID = ''p1''\<rparr> True new_broker))
       = \<lparr>IsAsync = True, DashboardURL = ''http://dash'', OperationData = ''i1''\<rparr>
   \<and> (\<exists>serviceInstance.
         CreateServiceInstance stub ''inst'' ''p1'' ''space-1'' True [] = (serviceInstance, None)
         \<and> LastOperation_State (ServiceInstance_LastOperation serviceInstance) = ''in progress''
         \<and> ServiceInstance_GUID serviceInstance = ''i1'')"
proof -
  let ?P = "Provision stub ''inst'' \<lparr>ServiceID = ''s1'', PlanID = ''p1''\<rparr> True new_broker"
  have p: "?P =
     (\<lparr>Catalog = None, SpaceGUID = ''space-1'',
       APIClient_calls =
         [GetSpaces_call, CreateServiceInstance_call ''inst'' ''p1'' ''space-1'' True []]\<rparr>,
      (\<lparr>IsAsync = True, DashboardURL = ''http://dash'', OperationData = ''i1''\<rparr>, None))"
    by (simp add: Provision_def issue_def new_broker_def stub_def LastOperationInProgress_def)
  from Provision_isAsync_iff_in_progress [OF p]
  obtain si where
    si: "CreateServiceInstance stub ''inst'' ''p1'' ''space-1'' True [] = (si, None)"
      "True = (LastOperation_State (ServiceInstance_LastOperation si) = ''in progress'')"
      "''i1'' = ServiceInstance_GUID si"
    by (elim exE conjE) simp
  from si have "\<exists>serviceInstance.
         CreateServiceInstance stub ''inst'' ''p1'' ''space-1'' True [] = (serviceInstance, None)
         \<and> LastOperation_State (ServiceInstance_LastOperation serviceInstance) = ''in progress''
         \<and> ServiceInstance_GUID serviceInstance = ''i1''"
    by (intro exI [of _ si]) simp
  then show ?thesis
    by (simp only: p fst_conv snd_conv simp_thms)
qed

theorem Provision_without_spaces_fails_witness:
  "SpaceGUID new_broker = ''''
   \<and> Provision (stub\<lparr>GetSpaces := ([], None)\<rparr>) ''inst'' \<lparr>ServiceID = ''s1'', PlanID = ''p1''\<rparr>
         True new_broker =
       (issue GetSpaces_call new_broker,
        (ProvisionedServiceSpec_zero, Some (ErrorString ''Available spaces not found'')))
   \<and> SpaceGUID (fst (Provision stub ''inst'' \<lparr>ServiceID = ''s1'', PlanID = ''p1''\<rparr>
                         True new_broker)) = ''space-1''"
proof -
  let ?d = "\<lparr>ServiceID = ''s1'', PlanID = ''p1''\<rparr>"
  let ?c0 = "stub\<lparr>GetSpaces := ([], None)\<rparr>"
  let ?P0 = "Provision ?c0 ''inst'' ?d True new_broker"
  let ?P1 = "Provision stub ''inst'' ?d True new_broker"
  have a: "SpaceGUID new_broker = ''''"
    by (simp add: new_broker_def)
  have g0: "GetSpaces ?c0 = ([], None)"
    by simp
  have g1: "GetSpaces stub =
              (\<lparr>Space_GUID = ''space-1''\<rparr> # [\<lparr>Space_GUID = ''space-2''\<rparr>], None)"
    by (simp add: stub_def)
  have p0: "?P0 = (fst ?P0, (fst (snd ?P0), snd (snd ?P0)))"
    by (simp only: prod.collapse)
  have p1: "?P1 = (fst ?P1, (fst (snd ?P1), snd (snd ?P1)))"
    by (simp only: prod.collapse)
  note t0 = Provision_without_spaces_fails [OF a p0]
  note t1 = Provision_without_spaces_fails [OF a p1]
  from t0 have i0: "GetSpaces ?c0 = ([], None) \<longrightarrow>
            snd (snd ?P0) = Some (ErrorString ''Available spaces not found'')
            \<and> fst (snd ?P0) = ProvisionedServiceSpec_zero
            \<and> fst ?P0 = issue GetSpaces_call new_broker
            \<and> APIClient_calls (fst ?P0) = APIClient_calls new_broker @ [GetSpaces_call]
            \<and> SpaceGUID (fst ?P0) = ''''"
    by (rule conjunct1)
  note c0 = mp [OF i0 g0]
  note r0 = c0 [THEN conjunct1] c0 [THEN conjunct2, THEN conjunct1]
    c0 [THEN conjunct2, THEN conjunct2, THEN conjunct1]
  note a1 = t1 [THEN conjunct2, THEN conjunct1]
  have r1: "SpaceGUID (fst ?P1) = ''space-1''"
    using mp [OF a1 [THEN spec, THEN spec] g1] by simp
  have e0: "?P0 = (issue GetSpaces_call new_broker,
        (ProvisionedServiceSpec_zero, Some (ErrorString ''Available spaces not found'')))"
    by (subst p0) (simp only: r0)
  show ?thesis
    by (intro conjI a e0 r1)
qed

theorem Deprovision_Bind_instance_not_found_witness:
  "GetServiceInstances (stub\<lparr>GetServiceInstances := (\<lambda>filters. ([], None))\<rparr>)
     (name_filter ''inst'') = ([], None)
   \<and> Deprovision (stub\<lparr>GetServiceInstances := (\<lambda>filters. ([], None))\<rparr>) ''inst'' () True
         new_broker =
       (issue (GetServiceInstances_call (name_filter ''inst'')) new_broker,
        (DeprovisionServiceSpec_zero,
         Some (ErrorString (''Service instance with name '' @ ''inst'' @ '' not found''))))
   \<and> Bind (stub\<lparr>GetServiceInstances := (\<lambda>filters. ([], None))\<rparr>) ''inst'' ''b1'' ()
         new_broker =
       (issue (GetServiceInstances_call (name_filter ''inst'')) new_broker,
        (Binding_zero,
         Some (ErrorString (''Service instance with name '' @ ''inst'' @ '' not found''))))
   \<and> APIClient_calls (issue (GetServiceInstances_call (name_filter ''inst'')) new_broker) =
       [GetServiceInstances_call
          [\<lparr>Filter_Type = ''name'', Filter_Operator = '':'', Filter_Values = [''inst'']\<rparr>]]"
proof -
  let ?c = "stub\<lparr>GetServiceInstances := (\<lambda>filters. ([], None))\<rparr>"
  have h: "GetServiceInstances ?c (name_filter ''inst'') = ([], None)"
    by simp
  note t = Deprovision_Bind_instance_not_found
             [OF h, where details = "()" and asyncAllowed = True and broker = new_broker
                and bindingID = "''b1''" and details' = "()"]
  have l: "APIClient_calls (issue (GetServiceInstances_call (name_filter ''inst'')) new_broker) =
       [GetServiceInstances_call
          [\<lparr>Filter_Type = ''name'', Filter_Operator = '':'', Filter_Values = [''inst'']\<rparr>]]"
    by (simp add: issue_def new_broker_def)
  show ?thesis
    by (intro conjI h t [THEN conjunct1] t [THEN conjunct2, THEN conjunct1] l)
qed


theorem caches_assigned_when_lookup_succeeds_witness:
  "SpaceGUID new_broker = ''''
   \<and> snd (snd (Provision
                 (stub\<lparr>CreateServiceInstance :=
                          (\<lambda>name plan space async ps.
                             (ServiceInstance_zero, Some (APIError ''create failed'')))\<rparr>)
                 ''inst'' \<lparr>ServiceID = ''s1'', PlanID = ''p1''\<rparr> True new_broker))
       = Some (APIError ''create failed'')
   \<and> SpaceGUID (fst (Provision
                 (stub\<lparr>CreateServiceInstance :=
                          (\<lambda>name plan space async ps.
                             (ServiceInstance_zero, Some (APIError ''create failed'')))\<rparr>)
                 ''inst'' \<lparr>ServiceID = ''s1'', PlanID = ''p1''\<rparr> True new_broker))
       = ''space-1''
   \<and> snd (snd (Services (stub\<lparr>GetServices := ([], Some (APIError ''down''))\<rparr>) new_broker))
       = Some (APIError ''down'')
   \<and> Catalog (fst (Services (stub\<lparr>GetServices := ([], Some (APIError ''down''))\<rparr>)
                       new_broker)) = None"
proof -
  let ?f = "stub\<lparr>CreateServiceInstance :=
                          (\<lambda>name plan space async ps.
                             (ServiceInstance_zero, Some (APIError ''create failed'')))\<rparr>"
  let ?g = "stub\<lparr>GetServices := ([], Some (APIError ''down''))\<rparr>"
  let ?d = "\<lparr>ServiceID = ''s1'', PlanID = ''p1''\<rparr>"
  have a: "SpaceGUID new_broker = ''''"
    by (simp add: new_broker_def)
  have e: "snd (snd (Provision ?f ''inst'' ?d True new_broker))
             = Some (APIError ''create failed'')"
    by (simp add: Provision_def issue_def new_broker_def stub_def)
  have g: "SpaceGUID new_broker = '''' \<and>
           GetSpaces ?f = (\<lparr>Space_GUID = ''space-1''\<rparr> # [\<lparr>Space_GUID = ''space-2''\<rparr>], None)"
    by (simp add: new_broker_def stub_def)
  note t1 = caches_assigned_when_lookup_succeeds
              [where client = ?f and broker = new_broker and instanceID = "''inst''"
                 and serviceDetails = ?d and asyncAllowed = True and client' = stub]
  note p3 = t1 [THEN conjunct2, THEN conjunct2, THEN conjunct2, THEN conjunct2,
                THEN conjunct2, THEN conjunct2]
  have r: "SpaceGUID (fst (Provision ?f ''inst'' ?d True new_broker)) = ''space-1''"
    using mp [OF p3 [THEN spec, THEN spec] g] by simp
  have s: "snd (snd (Services ?g new_broker)) = Some (APIError ''down'')"
    by (simp add: Services_error new_broker_def)
  then have n: "snd (snd (Services ?g new_broker)) \<noteq> None"
    by simp
  note t2 = caches_assigned_when_lookup_succeeds
              [where client = ?g and broker = new_broker and instanceID = "''inst''"
                 and serviceDetails = ?d and asyncAllowed = True and client' = stub]
  note c = mp [OF t2 [THEN conjunct1] n, THEN conjunct2, THEN conjunct1]
  show ?thesis
    by (intro conjI a e r s c)
qed

end
